theory Spec2Isabelle
  imports Complex_Main "HOL-Library.Multiset"
begin

section \<open>EpsmatModeler: aggregation of dielectric data and its spline model\<close>

text \<open>
  A shallow embedding of \<^verbatim>\<open>src/bgwtools/epsilon/epsmat_modeler.py\<close>.

  Conventions of the embedding.
  \<^item> numpy's float64 values are read as real numbers and its arithmetic as exact real
    arithmetic; rounding, overflow, \<^verbatim>\<open>inf\<close> and \<^verbatim>\<open>nan\<close> are not represented. Where
    numpy divides by zero it yields \<^verbatim>\<open>inf\<close> or \<^verbatim>\<open>nan\<close>, while division by zero in HOL
    yields 0. The statements below about numbers say which expression is computed, which
    holds in both readings. Whether a computed float64 value is zero, positive or finite
    depends on rounding and is outside the embedding.
  \<^item> numpy's integer arrays are read as unbounded integers.
  \<^item> a one-dimensional array is a list, a two-dimensional array the list of its rows.
    The attributes \<^verbatim>\<open>qs\<close>, \<^verbatim>\<open>qlens\<close> and \<^verbatim>\<open>eps\<close> are Python lists until
    \<^verbatim>\<open>commit_data\<close> and arrays afterwards; both are lists here. The embedding covers
    \<^verbatim>\<open>add_epsmat\<close> before the commit, one call of \<^verbatim>\<open>commit_data\<close>, and
    \<^verbatim>\<open>get_vcoul\<close> and \<^verbatim>\<open>model\<close> after it.
  \<^item> a Python exception is a value of \<open>error\<close>. \<open>add_epsmat\<close> and \<open>model\<close> return
    the exception (if any) together with the object state at the moment the exception
    leaves the method, because the appends made before a raise stay in place.
  \<^item> progress output (\<^verbatim>\<open>print\<close>) and plotting are not part of the state.
\<close>

subsection \<open>Errors and numpy indexing\<close>

datatype error = AssertionError | IndexError | ValueError | TypeError | AttributeError
  | IOError | LinAlgError | FitError

text \<open>
  \<^verbatim>\<open>a[i]\<close> along one axis of length \<open>n\<close>: numpy accepts \<open>- n \<le> i < n\<close> and reads a
  negative \<open>i\<close> as \<open>n + i\<close>; any other index raises.
\<close>

definition np_get :: "'a list \<Rightarrow> int \<Rightarrow> error + 'a" where
  "np_get xs i =
     (if 0 \<le> i \<and> i < int (length xs) then Inr (xs ! nat i)
      else if - int (length xs) \<le> i \<and> i < 0 then Inr (xs ! nat (int (length xs) + i))
      else Inl IndexError)"

text \<open>The first error of a sequence of results, or all the values.\<close>

fun collect :: "(error + 'a) list \<Rightarrow> error + 'a list" where
  "collect [] = Inr []"
| "collect (r # rs) =
     (case r of Inl err \<Rightarrow> Inl err
      | Inr x \<Rightarrow> (case collect rs of Inl err \<Rightarrow> Inl err | Inr xs \<Rightarrow> Inr (x # xs)))"

text \<open>\<^verbatim>\<open>a[idx]\<close> for an index array \<^verbatim>\<open>idx\<close>.\<close>

definition np_take :: "'a list \<Rightarrow> int list \<Rightarrow> error + 'a list" where
  "np_take xs idx = collect (map (np_get xs) idx)"

text \<open>\<^verbatim>\<open>buf[idx, idx]\<close> for a two-dimensional \<^verbatim>\<open>buf\<close>: the entries \<^verbatim>\<open>buf[i, i]\<close>.\<close>

definition np_take_diag :: "'a list list \<Rightarrow> int list \<Rightarrow> error + 'a list" where
  "np_take_diag buf idx =
     collect (map (\<lambda>i. case np_get buf i of Inl err \<Rightarrow> Inl err | Inr row \<Rightarrow> np_get row i) idx)"

subsection \<open>Geometry input and construction\<close>

type_synonym vec3 = "real \<times> real \<times> real"
type_synonym mat3 = "vec3 \<times> vec3 \<times> vec3"
type_synonym gvec = "int \<times> int \<times> int"

text \<open>
  The geometry source \<^verbatim>\<open>wfn\<close> is not part of the file; its accessor contract gives
  \<^verbatim>\<open>bdot\<close> and \<^verbatim>\<open>avec\<close> as 3 x 3 matrices and \<^verbatim>\<open>alat\<close> as a scalar. A 3 x 3 matrix is
  the triple of its rows.
\<close>

record wfn =
  bdot :: mat3
  alat :: real
  avec :: mat3

definition entry22 :: "mat3 \<Rightarrow> real" where
  "entry22 A = (case A of (r0, r1, (a20, a21, a22)) \<Rightarrow> a22)"

definition transpose3 :: "mat3 \<Rightarrow> mat3" where
  "transpose3 A =
     (case A of ((a00, a01, a02), (a10, a11, a12), (a20, a21, a22)) \<Rightarrow>
        ((a00, a10, a20), (a01, a11, a21), (a02, a12, a22)))"

text \<open>
  \<^verbatim>\<open>np.linalg.cholesky\<close> on a 3 x 3 matrix, in exact arithmetic: the lower-triangular
  factor, computed from the lower triangle of the argument; \<^verbatim>\<open>LinAlgError\<close> when a pivot
  is not positive.
\<close>

definition cholesky :: "mat3 \<Rightarrow> error + mat3" where
  "cholesky A =
     (case A of ((a00, a01, a02), (a10, a11, a12), (a20, a21, a22)) \<Rightarrow>
        if a00 \<le> 0 then Inl LinAlgError
        else
          let l00 = sqrt a00; l10 = a10 / l00; l20 = a20 / l00; d1 = a11 - l10 * l10
          in if d1 \<le> 0 then Inl LinAlgError
             else
               let l11 = sqrt d1; l21 = (a21 - l20 * l10) / l11;
                   d2 = a22 - l20 * l20 - l21 * l21
               in if d2 \<le> 0 then Inl LinAlgError
                  else Inr ((l00, 0, 0), (l10, l11, 0), (l20, l21, sqrt d2)))"

record EpsmatModeler =
  m_bdot :: mat3
  Lz :: real
  M :: mat3
  Gz_max :: int
  Gzs :: "int list"
  nG :: nat
  gvecs_want :: "gvec list"
  avgcut_xy :: real
  qs :: "real list list"
  qlens :: "real list"
  eps :: "real list list"
  m_nq :: nat
  eps00 :: "real list"
  degree :: "int option"
  tcks :: "(real list \<times> real list \<times> int) list option"

text \<open>
  \<^verbatim>\<open>__init__\<close>. \<^verbatim>\<open>gvecs_want\<close> is the 3 x nG integer array whose third row is
  \<^verbatim>\<open>Gzs\<close>; it is kept as the list of its columns, which is the only way it is read
  (\<^verbatim>\<open>gvecs_want.T\<close>). The field \<^verbatim>\<open>self.bdot\<close> is \<open>m_bdot\<close> and \<^verbatim>\<open>self.nq\<close> is
  \<open>m_nq\<close>, since the geometry and the data source have fields of the same names.
  The attributes \<^verbatim>\<open>degree\<close> and \<^verbatim>\<open>tcks\<close> do not exist until \<^verbatim>\<open>model\<close> sets them;
  until then they are \<open>None\<close>. A spline is the triple \<^verbatim>\<open>(t, c, k)\<close> of knots, coefficients
  and degree that \<^verbatim>\<open>splrep\<close> returns.
\<close>

definition init :: "wfn \<Rightarrow> int \<Rightarrow> real \<Rightarrow> error + EpsmatModeler" where
  "init w gz_max avgcut =
     (case cholesky (bdot w) of
        Inl err \<Rightarrow> Inl err
      | Inr L \<Rightarrow>
          Inr \<lparr> m_bdot = bdot w,
                Lz = alat w * entry22 (avec w),
                M = transpose3 L,
                Gz_max = gz_max,
                Gzs = [- gz_max .. gz_max],
                nG = length [- gz_max .. gz_max],
                gvecs_want = map (\<lambda>gz. (0, 0, gz)) [- gz_max .. gz_max],
                avgcut_xy = avgcut,
                qs = [], qlens = [], eps = [], m_nq = 0, eps00 = [],
                degree = None, tcks = None \<rparr>)"

subsection \<open>The dielectric-matrix source\<close>

text \<open>
  The source object \<^verbatim>\<open>epsmat\<close> is not part of the file. Its fields follow the accessor
  contract: \<open>gvec_k\<close> is the 3 x N integer array of stored lattice vectors, kept as the
  list of its columns (it is read as \<^verbatim>\<open>gvec_k.T\<close>); \<open>qpt\<close> is the 3 x nq array of
  q-points, kept as the list of its columns (it is read as \<^verbatim>\<open>qpt[:,iq]\<close>); \<open>isort_i\<close>
  is the per-point 1-based permutation. \<open>unread\<close> is the state of the sequential reader:
  the matrices of the points that have not been consumed yet, in file order.
\<close>

record epsmat =
  fname :: string
  gvec_k :: "gvec list"
  nq :: nat
  qpt :: "real list list"
  isort_i :: "int list list"
  unread :: "complex list list list"

text \<open>
  Modelled from the spec: the point reader \<^verbatim>\<open>read_qpt(in_place=False, ignore=...)\<close> of the
  source object, which is missing from the file. It is a cursor that is consumed once per
  q-point in sequential order: a call returns the dense matrix of the next point, or
  nothing when told to ignore, and advances past that point either way. The spec does not
  say what a call past the last point does; the model makes it an \<open>IOError\<close>.
\<close>

definition read_qpt :: "bool \<Rightarrow> epsmat \<Rightarrow> error + (complex list list option \<times> epsmat)" where
  "read_qpt ignore e =
     (case unread e of
        [] \<Rightarrow> Inl IOError
      | b # bs \<Rightarrow> Inr (if ignore then None else Some b, e\<lparr>unread := bs\<rparr>))"

subsection \<open>Selecting the lattice vectors\<close>

text \<open>
  \<^verbatim>\<open>cKDTree(points).query(wanted)\<close>: for every wanted vector the distance to its nearest
  stored vector and the index of that vector. The distance is kept squared, as an integer:
  it is zero exactly when the Euclidean distance is. Among equally near vectors the model
  takes the first; for an empty tree scipy reports an infinite distance (here \<open>None\<close>) and
  the index N.
\<close>

definition dist2 :: "gvec \<Rightarrow> gvec \<Rightarrow> int" where
  "dist2 g w =
     (case g of (g0, g1, g2) \<Rightarrow> case w of (w0, w1, w2) \<Rightarrow>
        (g0 - w0) * (g0 - w0) + (g1 - w1) * (g1 - w1) + (g2 - w2) * (g2 - w2))"

fun nearest_from :: "nat \<Rightarrow> gvec list \<Rightarrow> gvec \<Rightarrow> (int \<times> nat) option" where
  "nearest_from i [] w = None"
| "nearest_from i (g # gs) w =
     (case nearest_from (Suc i) gs w of
        None \<Rightarrow> Some (dist2 g w, i)
      | Some (d, j) \<Rightarrow> if dist2 g w \<le> d then Some (dist2 g w, i) else Some (d, j))"

definition query :: "gvec list \<Rightarrow> gvec list \<Rightarrow> (int \<times> nat) option list" where
  "query pts wanted = map (nearest_from 0 pts) wanted"

definition dists_all_zero :: "(int \<times> nat) option list \<Rightarrow> bool" where
  "dists_all_zero rs = list_all (\<lambda>r. case r of None \<Rightarrow> False | Some (d, i) \<Rightarrow> d = 0) rs"

definition igs_of :: "nat \<Rightarrow> (int \<times> nat) option list \<Rightarrow> int list" where
  "igs_of n rs = map (\<lambda>r. case r of None \<Rightarrow> int n | Some (d, i) \<Rightarrow> int i) rs"

subsection \<open>Ingesting a source\<close>

definition dot3 :: "vec3 \<Rightarrow> vec3 \<Rightarrow> real" where
  "dot3 r q = (case r of (r0, r1, r2) \<Rightarrow> case q of (q0, q1, q2) \<Rightarrow> r0 * q0 + r1 * q1 + r2 * q2)"

text \<open>
  \<^verbatim>\<open>np.sqrt(np.sum(np.dot(self.M, qq)**2))\<close>. \<^verbatim>\<open>np.dot\<close> of the 3 x 3 matrix with a
  vector that does not have three components raises \<^verbatim>\<open>ValueError\<close>.
\<close>

definition qlen_of :: "mat3 \<Rightarrow> real list \<Rightarrow> error + real" where
  "qlen_of A qq =
     (case qq of
        [q0, q1, q2] \<Rightarrow>
          (case A of (r0, r1, r2) \<Rightarrow>
             Inr (sqrt ((dot3 r0 (q0, q1, q2))\<^sup>2 + (dot3 r1 (q0, q1, q2))\<^sup>2
                        + (dot3 r2 (q0, q1, q2))\<^sup>2)))
      | _ \<Rightarrow> Inl ValueError)"

definition imag_tol :: real where
  "imag_tol = 1 / 10 ^ 15"

text \<open>
  The body of the loop over \<^verbatim>\<open>iq\<close> in \<^verbatim>\<open>add_epsmat\<close>, lines 46 to 65. The result is the
  exception that left the body (if any), the modeler and the source as they are then.
\<close>

definition qpt_body ::
  "int list \<Rightarrow> nat \<Rightarrow> EpsmatModeler \<Rightarrow> epsmat \<Rightarrow> error option \<times> EpsmatModeler \<times> epsmat" where
  "qpt_body igs_glob iq m e =
     (case np_get (qpt e) (int iq) of
        Inl err \<Rightarrow> (Some err, m, e)
      | Inr qq \<Rightarrow>
     (case qlen_of (M m) qq of
        Inl err \<Rightarrow> (Some err, m, e)
      | Inr qlen \<Rightarrow>
          if qlen > avgcut_xy m then
            (case read_qpt True e of
               Inl err \<Rightarrow> (Some err, m, e)
             | Inr (buf, e') \<Rightarrow> (None, m, e'))
          else
            let m1 = m\<lparr>qs := qs m @ [qq], qlens := qlens m @ [qlen]\<rparr> in
            (case read_qpt False e of
               Inl err \<Rightarrow> (Some err, m1, e)
             | Inr (buf, e') \<Rightarrow>
            (case np_get (isort_i e') (int iq) of
               Inl err \<Rightarrow> (Some err, m1, e')
             | Inr isort \<Rightarrow>
            (case np_take isort igs_glob of
               Inl err \<Rightarrow> (Some err, m1, e')
             | Inr igs1 \<Rightarrow>
            (case buf of
               None \<Rightarrow> (Some TypeError, m1, e')
             | Some b \<Rightarrow>
            (case np_take_diag b (map (\<lambda>i. i - 1) igs1) of
               Inl err \<Rightarrow> (Some err, m1, e')
             | Inr ceps \<Rightarrow>
                 if list_all (\<lambda>z. \<bar>Im z\<bar> < imag_tol) ceps
                 then (None, m1\<lparr>eps := eps m1 @ [map Re ceps]\<rparr>, e')
                 else (Some AssertionError, m1, e'))))))))"

text \<open>The loop \<^verbatim>\<open>for iq in range(epsmat.nq)\<close>: it ends at the first exception.\<close>

fun qpt_loop ::
  "int list \<Rightarrow> nat list \<Rightarrow> EpsmatModeler \<Rightarrow> epsmat \<Rightarrow> error option \<times> EpsmatModeler \<times> epsmat" where
  "qpt_loop igs_glob [] m e = (None, m, e)"
| "qpt_loop igs_glob (iq # iqs) m e =
     (case qpt_body igs_glob iq m e of
        (Some err, m', e') \<Rightarrow> (Some err, m', e')
      | (None, m', e') \<Rightarrow> qpt_loop igs_glob iqs m' e')"

definition add_epsmat :: "EpsmatModeler \<Rightarrow> epsmat \<Rightarrow> error option \<times> EpsmatModeler \<times> epsmat" where
  "add_epsmat m e =
     (let res = query (gvec_k e) (gvecs_want m) in
      if \<not> dists_all_zero res then (Some AssertionError, m, e)
      else qpt_loop (igs_of (length (gvec_k e)) res) [0 ..< nq e] m e)"

subsection \<open>Committing the data\<close>

text \<open>
  \<^verbatim>\<open>np.array(rows).T\<close> for a list of one-dimensional arrays. Rows of one common length
  L give the L x n array whose column \<open>j\<close> is row \<open>j\<close> of the list. An empty list gives
  an empty one-dimensional array, and rows of different lengths do not give an array of
  numbers with two axes; both are \<open>None\<close> here, and indexing them with two subscripts
  raises. Rows of different lengths do not come out of \<open>add_epsmat\<close>.
\<close>

definition np_array_T :: "real list list \<Rightarrow> real list list option" where
  "np_array_T rows =
     (case rows of
        [] \<Rightarrow> None
      | r # rs \<Rightarrow>
          if list_all (\<lambda>r'. length r' = length r) rs
          then Some (map (\<lambda>j. map (\<lambda>row. row ! j) rows) [0 ..< length r])
          else None)"

text \<open>
  \<^verbatim>\<open>a[:, order]\<close> for an array \<^verbatim>\<open>a\<close> with \<open>ncols\<close> columns and an index array of
  non-negative indices.
\<close>

definition take_cols :: "real list list option \<Rightarrow> nat \<Rightarrow> nat list \<Rightarrow> error + real list list" where
  "take_cols a ncols order =
     (case a of
        None \<Rightarrow> Inl IndexError
      | Some rows \<Rightarrow>
          if list_all (\<lambda>i. i < ncols) order
          then Inr (map (\<lambda>row. map (\<lambda>i. row ! i) order) rows)
          else Inl IndexError)"

text \<open>
  What is used of \<^verbatim>\<open>np.argsort\<close>: its result on an array is a permutation of the
  positions of the array that lists the values in non-decreasing order. Its default
  algorithm is not stable, so the order among equal values is left open.
\<close>

definition is_argsort :: "real list \<Rightarrow> nat list \<Rightarrow> bool" where
  "is_argsort xs order \<longleftrightarrow>
     mset order = mset [0 ..< length xs] \<and> sorted (map (\<lambda>i. xs ! i) order)"

text \<open>One such function: the stable sort of the positions by their values.\<close>

definition argsort_stable :: "real list \<Rightarrow> nat list" where
  "argsort_stable xs = sort_key (\<lambda>i. xs ! i) [0 ..< length xs]"

text \<open>
  \<^verbatim>\<open>commit_data\<close>, with \<^verbatim>\<open>np.argsort\<close> as a parameter. The result is the exception, if
  one is raised, or the modeler with the three fields rebound to the reordered arrays. After
  a raise the run is over and the half-rebound fields are not represented.
\<close>

definition commit_data :: "(real list \<Rightarrow> nat list) \<Rightarrow> EpsmatModeler \<Rightarrow> error + EpsmatModeler" where
  "commit_data argsort m =
     (let qsT = np_array_T (qs m);
          epsT = np_array_T (eps m);
          order = argsort (qlens m)
      in case take_cols qsT (length (qs m)) order of
           Inl err \<Rightarrow> Inl err
         | Inr qs' \<Rightarrow>
        (case np_take (qlens m) (map int order) of
           Inl err \<Rightarrow> Inl err
         | Inr qlens' \<Rightarrow>
        (case take_cols epsT (length (eps m)) order of
           Inl err \<Rightarrow> Inl err
         | Inr eps' \<Rightarrow> Inr (m\<lparr>qs := qs', qlens := qlens', eps := eps'\<rparr>))))"

text \<open>
  The samples of a committed dataset: sample \<open>j\<close> is column \<open>j\<close> of \<open>qs\<close>, entry \<open>j\<close>
  of \<open>qlens\<close> and column \<open>j\<close> of \<open>eps\<close>. Before the commit the samples are the entries
  of the three pending lists, position by position.
\<close>

definition column :: "real list list \<Rightarrow> nat \<Rightarrow> real list" where
  "column a j = map (\<lambda>row. row ! j) a"

definition committed_samples :: "EpsmatModeler \<Rightarrow> (real list \<times> real \<times> real list) list" where
  "committed_samples m =
     map (\<lambda>j. (column (qs m) j, qlens m ! j, column (eps m) j)) [0 ..< length (qlens m)]"

definition pending_samples :: "EpsmatModeler \<Rightarrow> (real list \<times> real \<times> real list) list" where
  "pending_samples m = zip (qs m) (zip (qlens m) (eps m))"

text \<open>
  The shape of the pending lists that \<open>add_epsmat\<close> keeps up as long as it returns
  normally: the three lists have one entry per sample, every q-vector has three components
  and every vector of dielectric values has one entry per requested lattice index. The
  commit needs at least one sample besides.
\<close>

definition aligned :: "EpsmatModeler \<Rightarrow> bool" where
  "aligned m \<longleftrightarrow>
     length (qs m) = length (qlens m) \<and> length (eps m) = length (qlens m)
     \<and> list_all (\<lambda>q. length q = 3) (qs m)
     \<and> list_all (\<lambda>v. length v = length (gvecs_want m)) (eps m)"

definition pending_ok :: "EpsmatModeler \<Rightarrow> bool" where
  "pending_ok m \<longleftrightarrow> qlens m \<noteq> [] \<and> aligned m"

subsection \<open>The Coulomb kernel\<close>

text \<open>
  The body of \<^verbatim>\<open>get_vcoul\<close> for one magnitude and one lattice index. \<^verbatim>\<open>Gz%2\<close> is
  Python's remainder, which is never negative for the divisor 2, as \<open>mod\<close> on \<open>int\<close>.

  \<open>vcoul\<close> is the real number that the expression of lines 82 to 91 denotes. The float64
  value that numpy computes differs from it by rounding: \<^verbatim>\<open>np.exp(-qlen*zc)\<close> is exactly
  1.0 once \<^verbatim>\<open>qlen*zc\<close> is below about \<open>10\<^sup>-\<^sup>1\<^sup>6\<close>, and \<^verbatim>\<open>qlen**2\<close> overflows once
  \<^verbatim>\<open>qlen\<close> is above about \<open>10\<^sup>1\<^sup>5\<^sup>4\<close>; in both cases the computed kernel is exactly 0.0
  although the real number is positive. Whether the computed kernel is zero or positive
  (claim C9) is therefore not a question that this embedding can state, and nothing below
  is derived from the sign or the size of \<open>vcoul\<close>.
\<close>

definition vcoul :: "EpsmatModeler \<Rightarrow> real \<Rightarrow> int \<Rightarrow> bool \<Rightarrow> real" where
  "vcoul m qlen Gz trunc =
     (let G2 = of_int (Gz ^ 2) * entry22 (m_bdot m);
          cos_term = of_int (1 - 2 * (Gz mod 2));
          zc = Lz m / 2
      in if trunc then 8 * pi / (qlen ^ 2 + G2) * (1 - exp (- qlen * zc) * cos_term)
         else 8 * pi / (qlen ^ 2 + G2))"

text \<open>
  The arguments of \<^verbatim>\<open>get_vcoul\<close> are a scalar or an array each, and so is its result.
  When \<^verbatim>\<open>Gz\<close> is an array, line 81 rebinds \<^verbatim>\<open>qlen\<close> to \<^verbatim>\<open>self.qlens\<close>, and the
  result has one row per entry of \<^verbatim>\<open>Gz\<close> and one column per entry of \<^verbatim>\<open>self.qlens\<close>.
\<close>

datatype qlen_arg = QScalar real | QArray "real list"

datatype gz_arg = GzScalar int | GzArray "int list"

datatype vcoul_result = VScalar real | VArray "real list" | VMatrix "real list list"

definition get_vcoul :: "EpsmatModeler \<Rightarrow> qlen_arg \<Rightarrow> gz_arg \<Rightarrow> bool \<Rightarrow> vcoul_result" where
  "get_vcoul m qlen Gz trunc =
     (case Gz of
        GzArray gzs \<Rightarrow> VMatrix (map (\<lambda>gz. map (\<lambda>q. vcoul m q gz trunc) (qlens m)) gzs)
      | GzScalar gz \<Rightarrow>
          (case qlen of
             QScalar q \<Rightarrow> VScalar (vcoul m q gz trunc)
           | QArray qa \<Rightarrow> VArray (map (\<lambda>q. vcoul m q gz trunc) qa)))"

subsection \<open>Fitting\<close>

text \<open>
  \<^verbatim>\<open>(self.eps - 1.0)/vT\<close> with \<^verbatim>\<open>vT = self.get_vcoul(self.qlens, self.Gzs)\<close>: a new
  array. The two operands have the same shape for a committed dataset; other shapes raise
  here (numpy would stretch an axis of length one, which \<open>commit_data\<close> does not produce
  against more than one lattice index or sample).
\<close>

definition same_shape :: "real list list \<Rightarrow> real list list \<Rightarrow> bool" where
  "same_shape a b \<longleftrightarrow> length a = length b \<and> list_all (\<lambda>(r, r'). length r = length r') (zip a b)"

definition chi_of :: "EpsmatModeler \<Rightarrow> error + real list list" where
  "chi_of m =
     (case get_vcoul m (QArray (qlens m)) (GzArray (Gzs m)) True of
        VMatrix vT \<Rightarrow>
          if same_shape (eps m) vT
          then Inr (map (\<lambda>(erow, vrow). map (\<lambda>(ev, v). (ev - 1) / v) (zip erow vrow))
                      (zip (eps m) vT))
          else Inl ValueError
      | _ \<Rightarrow> Inl ValueError)"

text \<open>
  The local name \<^verbatim>\<open>ys\<close> is bound either to the array object held by \<^verbatim>\<open>self.eps\<close>
  (\<^verbatim>\<open>ys = self.eps\<close>, no copy) or to the new array \<^verbatim>\<open>chi\<close>. The store of \<^verbatim>\<open>model\<close> is
  the modeler together with the array \<^verbatim>\<open>chi\<close>; reading and writing through \<^verbatim>\<open>ys\<close> go
  to the object it is bound to.
\<close>

datatype ys_ref = Ref_eps | Ref_chi

definition deref :: "ys_ref \<Rightarrow> EpsmatModeler \<times> real list list \<Rightarrow> real list list" where
  "deref r st = (case r of Ref_eps \<Rightarrow> eps (fst st) | Ref_chi \<Rightarrow> snd st)"

definition assign :: "ys_ref \<Rightarrow> real list list \<Rightarrow> EpsmatModeler \<times> real list list
                       \<Rightarrow> EpsmatModeler \<times> real list list" where
  "assign r a st = (case r of Ref_eps \<Rightarrow> ((fst st)\<lparr>eps := a\<rparr>, snd st) | Ref_chi \<Rightarrow> (fst st, a))"

text \<open>
  \<^verbatim>\<open>ys[self.Gzs%2==0,:] /= self.qlens\<close>: the rows of the object bound to \<^verbatim>\<open>ys\<close> at
  even lattice indices are divided, in place, entry by entry by the magnitudes. It is
  applied to \<^verbatim>\<open>chi\<close>, which has one row per lattice index and one column per magnitude.
\<close>

definition div_even_rows :: "int list \<Rightarrow> real list \<Rightarrow> real list list \<Rightarrow> real list list" where
  "div_even_rows gzs ql a =
     map (\<lambda>(gz, row). if gz mod 2 = 0 then map (\<lambda>(v, q). v / q) (zip row ql) else row)
       (zip gzs a)"

definition idiv_even_rows :: "ys_ref \<Rightarrow> EpsmatModeler \<times> real list list
                               \<Rightarrow> EpsmatModeler \<times> real list list" where
  "idiv_even_rows r st =
     assign r (div_even_rows (Gzs (fst st)) (qlens (fst st)) (deref r st)) st"

text \<open>Lines 116 to 122: the data of one lattice index, with the point at the origin.\<close>

definition fit_xy :: "int \<Rightarrow> real list \<Rightarrow> real list \<Rightarrow> int \<Rightarrow> real list \<times> real list" where
  "fit_xy kind ql y Gz =
     (if Gz mod 2 = 0 \<and> kind = 1 then (0 # ql, 0 # y) else (ql, y))"

text \<open>Lines 127 to 130: the smoothing factor.\<close>

definition smoothing :: "real \<Rightarrow> real list \<Rightarrow> int \<Rightarrow> real" where
  "smoothing smooth x Gz = (if Gz = 0 then 0 else of_nat (length x) * smooth)"

type_synonym tck = "real list \<times> real list \<times> int"
type_synonym splrep_fun = "real list \<Rightarrow> real list \<Rightarrow> int \<Rightarrow> real \<Rightarrow> error + tck"

text \<open>
  The loop of lines 114 to 132 over the pairs \<^verbatim>\<open>(ig, Gz)\<close>, with scipy's \<^verbatim>\<open>splrep\<close> as
  a parameter that returns a spline or raises. Lines 133 to 160 evaluate and plot the
  spline; they read \<^verbatim>\<open>self.qlens\<close>, \<^verbatim>\<open>self.eps\<close> and \<^verbatim>\<open>self.Gzs\<close> and write nothing,
  and they are left out.
\<close>

fun fit_loop :: "splrep_fun \<Rightarrow> int \<Rightarrow> real \<Rightarrow> int \<Rightarrow> ys_ref \<Rightarrow> (nat \<times> int) list
                  \<Rightarrow> EpsmatModeler \<times> real list list \<Rightarrow> error option \<times> EpsmatModeler" where
  "fit_loop splrep kind smooth deg ys [] st = (None, fst st)"
| "fit_loop splrep kind smooth deg ys ((ig, Gz) # rest) st =
     (case np_get (deref ys st) (int ig) of
        Inl err \<Rightarrow> (Some err, fst st)
      | Inr y0 \<Rightarrow>
          (case fit_xy kind (qlens (fst st)) y0 Gz of
             (x, y) \<Rightarrow>
               (case splrep x y deg (smoothing smooth x Gz) of
                  Inl err \<Rightarrow> (Some err, fst st)
                | Inr t \<Rightarrow>
                    (case tcks (fst st) of
                       None \<Rightarrow> (Some AttributeError, fst st)
                     | Some ts \<Rightarrow>
                         fit_loop splrep kind smooth deg ys rest
                           ((fst st)\<lparr>tcks := Some (ts @ [t])\<rparr>, snd st)))))"

definition model :: "splrep_fun \<Rightarrow> EpsmatModeler \<Rightarrow> int \<Rightarrow> real \<Rightarrow> int \<Rightarrow> error option \<times> EpsmatModeler" where
  "model splrep m kind smooth deg =
     (let m1 = m\<lparr>degree := Some deg\<rparr>;
          pairs = zip [0 ..< nG m] (Gzs m)
      in if kind = 0 then
           fit_loop splrep kind smooth deg Ref_eps pairs (m1\<lparr>tcks := Some []\<rparr>, [])
         else
           (case chi_of m1 of
              Inl err \<Rightarrow> (Some err, m1)
            | Inr chi \<Rightarrow>
                if kind = 1 then
                  fit_loop splrep kind smooth deg Ref_chi pairs (m1\<lparr>tcks := Some []\<rparr>, chi)
                else
                  (case idiv_even_rows Ref_chi (m1, chi) of
                     (m2, chi2) \<Rightarrow>
                       fit_loop splrep kind smooth deg Ref_chi pairs
                         (m2\<lparr>tcks := Some []\<rparr>, chi2))))"

subsection \<open>Concrete inputs\<close>

text \<open>A unit reciprocal metric, a cell of length 6 along z, and a source with two q-points
  of magnitudes 2 and 1 whose second matrix has the entry \<open>z\<close> at the selected position.\<close>

definition wfn_ex :: wfn where
  "wfn_ex = \<lparr> bdot = ((1, 0, 0), (0, 1, 0), (0, 0, 1)), alat = 2,
              avec = ((1, 0, 0), (0, 1, 0), (0, 0, 3)) \<rparr>"

definition modeler_ex :: "int \<Rightarrow> real \<Rightarrow> EpsmatModeler" where
  "modeler_ex gz_max avgcut =
     \<lparr> m_bdot = ((1, 0, 0), (0, 1, 0), (0, 0, 1)), Lz = 6,
       M = ((1, 0, 0), (0, 1, 0), (0, 0, 1)),
       Gz_max = gz_max, Gzs = [- gz_max .. gz_max], nG = length [- gz_max .. gz_max],
       gvecs_want = map (\<lambda>gz. (0, 0, gz)) [- gz_max .. gz_max],
       avgcut_xy = avgcut,
       qs = [], qlens = [], eps = [], m_nq = 0, eps00 = [], degree = None, tcks = None \<rparr>"

definition epsmat_ex :: "complex \<Rightarrow> epsmat" where
  "epsmat_ex z =
     \<lparr> fname = ''eps0mat'', gvec_k = [(1, 0, 0), (0, 0, 0)], nq = 2,
       qpt = [[2, 0, 0], [1, 0, 0]], isort_i = [[2, 1], [2, 1]],
       unread = [[[Complex 5 0, 0], [0, Complex 7 0]], [[z, 0], [0, Complex 9 0]]] \<rparr>"

text \<open>
  Three pending samples for the lattice indices -1, 0, 1, two of them of the same magnitude,
  and the same data as \<open>commit_data\<close> leaves them.
\<close>

definition pending_ex :: EpsmatModeler where
  "pending_ex = (modeler_ex 1 3)
     \<lparr>qs := [[2, 0, 0], [1, 0, 0], [0, 2, 0]], qlens := [2, 1, 2],
      eps := [[1/2, 1/4, 1/2], [1/3, 1/5, 1/3], [3/4, 1/2, 3/4]]\<rparr>"

definition committed_ex :: EpsmatModeler where
  "committed_ex = (modeler_ex 1 3)
     \<lparr>qs := [[1, 2, 0], [0, 0, 2], [0, 0, 0]], qlens := [1, 2, 2],
      eps := [[1/3, 1/2, 3/4], [1/5, 1/4, 1/2], [1/3, 1/2, 3/4]]\<rparr>"


section \<open>Properties of ingestion\<close>

lemma collect_length: "collect rs = Inr xs \<Longrightarrow> length xs = length rs"
  by (induction rs arbitrary: xs) (auto split: sum.splits)

lemma dist2_zero: "dist2 g w = 0 \<longleftrightarrow> g = w"
proof -
  obtain g0 g1 g2 where g: "g = (g0, g1, g2)" by (cases g)
  obtain w0 w1 w2 where w: "w = (w0, w1, w2)" by (cases w)
  have "(g0 - w0) * (g0 - w0) + (g1 - w1) * (g1 - w1) + (g2 - w2) * (g2 - w2) = 0
        \<longleftrightarrow> g0 - w0 = 0 \<and> g1 - w1 = 0 \<and> g2 - w2 = 0"
    using sum_squares_eq_zero_iff [of "g0 - w0" "g1 - w1"]
    by (smt (verit) mult_eq_0_iff zero_le_square)
  then show ?thesis by (simp add: dist2_def g w)
qed

lemma nearest_from_zero:
  "nearest_from i pts w = Some (0, j) \<Longrightarrow> w \<in> set pts"
proof (induction pts arbitrary: i j)
  case Nil
  then show ?case by simp
next
  case (Cons g gs)
  then show ?case
    by (fastforce simp: dist2_zero split: option.splits if_splits)
qed

lemma dists_all_zero_present:
  "dists_all_zero (query pts wanted) \<Longrightarrow> w \<in> set wanted \<Longrightarrow> w \<in> set pts"
  unfolding dists_all_zero_def query_def list_all_iff
  by (auto split: option.splits dest: nearest_from_zero)

lemma qpt_body_kept:
  assumes "qpt_body igs iq m e = (r, m', e')"
  shows "avgcut_xy m' = avgcut_xy m
         \<and> (\<exists>kept. qlens m' = qlens m @ kept \<and> (\<forall>l \<in> set kept. l \<le> avgcut_xy m))"
  using assms unfolding qpt_body_def
  by (auto simp: Let_def split: sum.splits if_splits option.splits prod.splits)

lemma qpt_loop_kept:
  "qpt_loop igs iqs m e = (r, m', e') \<Longrightarrow>
     avgcut_xy m' = avgcut_xy m
     \<and> (\<exists>kept. qlens m' = qlens m @ kept \<and> (\<forall>l \<in> set kept. l \<le> avgcut_xy m))"
proof (induction iqs arbitrary: m e)
  case Nil
  then show ?case by simp
next
  case (Cons iq iqs)
  obtain r1 m1 e1 where b: "qpt_body igs iq m e = (r1, m1, e1)"
    by (cases "qpt_body igs iq m e") auto
  note k = qpt_body_kept [OF b]
  show ?case
  proof (cases r1)
    case None
    with Cons.prems b have "qpt_loop igs iqs m1 e1 = (r, m', e')" by simp
    from Cons.IH [OF this] k show ?thesis by auto
  next
    case (Some err)
    with Cons.prems b have "m' = m1" by simp
    with k show ?thesis by simp
  qed
qed

lemma qpt_body_advance:
  assumes "qpt_body igs iq m e = (None, m', e')"
  shows "length (unread e) = Suc (length (unread e'))"
  using assms unfolding qpt_body_def read_qpt_def
  by (auto simp: Let_def split: sum.splits if_splits option.splits prod.splits list.splits)

lemma qpt_loop_advance:
  "qpt_loop igs iqs m e = (None, m', e') \<Longrightarrow>
     length (unread e) = length (unread e') + length iqs"
proof (induction iqs arbitrary: m e)
  case Nil
  then show ?case by simp
next
  case (Cons iq iqs)
  obtain r1 m1 e1 where b: "qpt_body igs iq m e = (r1, m1, e1)"
    by (cases "qpt_body igs iq m e") auto
  show ?case
  proof (cases r1)
    case None
    with Cons.prems b have l: "qpt_loop igs iqs m1 e1 = (None, m', e')" by simp
    from qpt_body_advance b None have "length (unread e) = Suc (length (unread e1))" by blast
    with Cons.IH [OF l] show ?thesis by simp
  next
    case (Some err)
    with Cons.prems b show ?thesis by simp
  qed
qed

lemma init_ex: "init wfn_ex gz_max avgcut = Inr (modeler_ex gz_max avgcut)"
  by (simp add: init_def wfn_ex_def cholesky_def transpose3_def entry22_def modeler_ex_def)

lemma upto_ex: "[- 1 .. (1::int)] = [- 1, 0, 1]"
  by (simp add: upto.simps)

lemma upto_ex0: "[- 0 .. (0::int)] = [0]"
  by (simp add: upto.simps)

lemma add_epsmat_ex:
  "add_epsmat (modeler_ex 0 1) (epsmat_ex (Complex (1/2) 0))
     = (None, (modeler_ex 0 1)\<lparr>qs := [[1, 0, 0]], qlens := [1], eps := [[1/2]]\<rparr>,
        (epsmat_ex (Complex (1/2) 0))\<lparr>unread := []\<rparr>)"
  by (simp add: add_epsmat_def modeler_ex_def epsmat_ex_def upto_ex0 query_def dist2_def
      dists_all_zero_def igs_of_def qpt_body_def np_get_def qlen_of_def dot3_def read_qpt_def
      np_take_def np_take_diag_def imag_tol_def upt_rec)

lemma qlen_of_length: "qlen_of A qq = Inr l \<Longrightarrow> length qq = 3"
  by (auto simp: qlen_of_def split: list.splits)

lemma np_take_length: "np_take xs idx = Inr ys \<Longrightarrow> length ys = length idx"
  unfolding np_take_def by (drule collect_length) simp

lemma np_take_diag_length: "np_take_diag b idx = Inr ys \<Longrightarrow> length ys = length idx"
  unfolding np_take_diag_def by (drule collect_length) simp

lemma qpt_body_aligned:
  assumes "qpt_body igs iq m e = (None, m', e')"
    and "aligned m" and "length igs = length (gvecs_want m)"
  shows "aligned m' \<and> gvecs_want m' = gvecs_want m"
  using assms unfolding qpt_body_def aligned_def
  apply (auto simp: Let_def split: sum.splits if_splits option.splits prod.splits
      dest: qlen_of_length)
   apply (frule np_take_diag_length, frule np_take_length, simp)+
  done

lemma qpt_loop_aligned:
  "qpt_loop igs iqs m e = (None, m', e') \<Longrightarrow> aligned m \<Longrightarrow>
     length igs = length (gvecs_want m) \<Longrightarrow> aligned m'"
proof (induction iqs arbitrary: m e)
  case Nil
  then show ?case by simp
next
  case (Cons iq iqs)
  obtain r1 m1 e1 where b: "qpt_body igs iq m e = (r1, m1, e1)"
    by (cases "qpt_body igs iq m e") auto
  show ?case
  proof (cases r1)
    case None
    with Cons.prems(1) b have l: "qpt_loop igs iqs m1 e1 = (None, m', e')" by simp
    from qpt_body_aligned [of igs iq m e m1 e1] b None Cons.prems(2,3)
    have "aligned m1" and "length igs = length (gvecs_want m1)" by simp_all
    with Cons.IH [OF l] show ?thesis by simp
  next
    case (Some err)
    with Cons.prems(1) b show ?thesis by simp
  qed
qed

lemma add_epsmat_aligned:
  assumes "add_epsmat m e = (None, m', e')" and "aligned m"
  shows "aligned m'"
proof -
  let ?res = "query (gvec_k e) (gvecs_want m)"
  from assms(1)
  have a: "qpt_loop (igs_of (length (gvec_k e)) ?res) [0 ..< nq e] m e = (None, m', e')"
    by (auto simp: add_epsmat_def Let_def split: if_splits)
  have b: "length (igs_of (length (gvec_k e)) ?res) = length (gvecs_want m)"
    by (simp add: igs_of_def query_def)
  from qpt_loop_aligned [OF a assms(2) b] show ?thesis .
qed

lemma init_aligned: "init w gz_max avgcut = Inr m \<Longrightarrow> aligned m"
  by (auto simp: init_def aligned_def split: sum.splits)

subsection \<open>The magnitude cutoff\<close>

text \<open>
  Claim C1. A q-point whose magnitude exceeds \<open>avgcut_xy\<close> leaves the modeler as it is,
  while the reader is still called, in discard mode, and so moves past the point. Whatever
  the outcome of \<open>add_epsmat\<close>, the magnitudes it appended are all at most \<open>avgcut_xy\<close>,
  and when it returns normally the reader has moved past one matrix per q-point of the
  source, discarded points included.
\<close>

theorem add_epsmat_cutoff:
  "(np_get (qpt e) (int iq) = Inr qq \<and> qlen_of (M m) qq = Inr l \<and> l > avgcut_xy m \<longrightarrow>
      qpt_body igs iq m e =
        (case read_qpt True e of
           Inl err \<Rightarrow> (Some err, m, e)
         | Inr (buf, e1) \<Rightarrow> (None, m, e1)))
   \<and> (add_epsmat m e = (r, m', e') \<longrightarrow>
        (\<exists>kept. qlens m' = qlens m @ kept \<and> (\<forall>l \<in> set kept. l \<le> avgcut_xy m'))
        \<and> (r = None \<longrightarrow> length (unread e) = length (unread e') + nq e))"
proof (intro conjI impI)
  assume "np_get (qpt e) (int iq) = Inr qq \<and> qlen_of (M m) qq = Inr l \<and> l > avgcut_xy m"
  then show "qpt_body igs iq m e =
        (case read_qpt True e of
           Inl err \<Rightarrow> (Some err, m, e)
         | Inr (buf, e1) \<Rightarrow> (None, m, e1))"
    by (simp add: qpt_body_def)
next
  assume a: "add_epsmat m e = (r, m', e')"
  show "\<exists>kept. qlens m' = qlens m @ kept \<and> (\<forall>l \<in> set kept. l \<le> avgcut_xy m')"
  proof (cases "dists_all_zero (query (gvec_k e) (gvecs_want m))")
    case True
    with a have "qpt_loop (igs_of (length (gvec_k e)) (query (gvec_k e) (gvecs_want m)))
                   [0 ..< nq e] m e = (r, m', e')"
      by (simp add: add_epsmat_def)
    from qpt_loop_kept [OF this] show ?thesis by auto
  next
    case False
    with a have "m' = m" by (simp add: add_epsmat_def)
    then show ?thesis by simp
  qed
next
  assume a: "add_epsmat m e = (r, m', e')" and r: "r = None"
  then have "dists_all_zero (query (gvec_k e) (gvecs_want m))"
    by (auto simp: add_epsmat_def Let_def split: if_splits)
  with a r have "qpt_loop (igs_of (length (gvec_k e)) (query (gvec_k e) (gvecs_want m)))
                   [0 ..< nq e] m e = (None, m', e')"
    by (simp add: add_epsmat_def)
  from qpt_loop_advance [OF this] show "length (unread e) = length (unread e') + nq e"
    by simp
qed

theorem add_epsmat_cutoff_witness:
  "np_get (qpt (epsmat_ex (Complex (1/2) 0))) (int 0) = Inr [2, 0, 0]
   \<and> qlen_of (M (modeler_ex 0 1)) [2, 0, 0] = Inr 2
   \<and> 2 > avgcut_xy (modeler_ex 0 1)
   \<and> qpt_body [1] 0 (modeler_ex 0 1) (epsmat_ex (Complex (1/2) 0))
       = (None, modeler_ex 0 1,
          (epsmat_ex (Complex (1/2) 0))\<lparr>unread := [[[Complex (1/2) 0, 0], [0, Complex 9 0]]]\<rparr>)
   \<and> qlens (fst (snd (add_epsmat (modeler_ex 0 1) (epsmat_ex (Complex (1/2) 0))))) = [1]
   \<and> (1::real) \<le> avgcut_xy (fst (snd (add_epsmat (modeler_ex 0 1) (epsmat_ex (Complex (1/2) 0)))))
   \<and> length (unread (epsmat_ex (Complex (1/2) 0)))
       = length (unread (snd (snd (add_epsmat (modeler_ex 0 1) (epsmat_ex (Complex (1/2) 0))))))
         + nq (epsmat_ex (Complex (1/2) 0))"
proof -
  have h1: "np_get (qpt (epsmat_ex (Complex (1/2) 0))) (int 0) = Inr [2, 0, 0]"
    by (simp add: epsmat_ex_def np_get_def)
  have h2: "qlen_of (M (modeler_ex 0 1)) [2, 0, 0] = Inr 2"
    by (simp add: modeler_ex_def qlen_of_def dot3_def)
  have h3: "2 > avgcut_xy (modeler_ex 0 1)"
    by (simp add: modeler_ex_def)
  have rd: "read_qpt True (epsmat_ex (Complex (1/2) 0))
            = Inr (None, (epsmat_ex (Complex (1/2) 0))
                     \<lparr>unread := [[[Complex (1/2) 0, 0], [0, Complex 9 0]]]\<rparr>)"
    by (simp add: read_qpt_def epsmat_ex_def)
  from add_epsmat_cutoff [of "epsmat_ex (Complex (1/2) 0)" 0 "[2, 0, 0]" "modeler_ex 0 1" 2
      "[1]" None "(modeler_ex 0 1)\<lparr>qs := [[1, 0, 0]], qlens := [1], eps := [[1/2]]\<rparr>"
      "(epsmat_ex (Complex (1/2) 0))\<lparr>unread := []\<rparr>"]
    h1 h2 h3 rd add_epsmat_ex
  show ?thesis by (simp add: modeler_ex_def epsmat_ex_def)
qed

text \<open>
  Claim C3. The help text of the \<^verbatim>\<open>--avgcut_xy\<close> option says that the value 0.0 keeps
  every q-point. The comparison \<^verbatim>\<open>qlen > self.avgcut_xy\<close> has no case for zero: with a
  zero cutoff the two q-points of the example source, of magnitudes 2 and 1, are both
  discarded and the pending lists stay empty.
\<close>

theorem add_epsmat_zero_cutoff_discards:
  "add_epsmat (modeler_ex 0 0) (epsmat_ex (Complex (1/2) 0))
     = (None, modeler_ex 0 0, (epsmat_ex (Complex (1/2) 0))\<lparr>unread := []\<rparr>)
   \<and> qs (modeler_ex 0 0) = [] \<and> qlens (modeler_ex 0 0) = [] \<and> eps (modeler_ex 0 0) = []"
  by (simp add: add_epsmat_def modeler_ex_def epsmat_ex_def upto_ex0 query_def dist2_def
      dists_all_zero_def igs_of_def qpt_body_def np_get_def qlen_of_def dot3_def read_qpt_def
      upt_rec)

subsection \<open>Missing lattice vectors\<close>

text \<open>
  Claim C4. If one of the requested vectors \<open>(0, 0, Gz)\<close>, with \<open>Gz\<close> between
  \<open>- Gz_max\<close> and \<open>Gz_max\<close>, is not among the stored vectors of the source, then
  \<open>add_epsmat\<close> raises \<open>AssertionError\<close> before the loop over the q-points: the modeler
  and the reader of the source are as they were. A stored vector that is merely near the
  requested one does not help, since only the distance zero passes.
\<close>

theorem add_epsmat_absent:
  assumes "gvecs_want m = map (\<lambda>gz. (0, 0, gz)) [- Gz_max m .. Gz_max m]"
    and "- Gz_max m \<le> gz" and "gz \<le> Gz_max m"
    and "(0, 0, gz) \<notin> set (gvec_k e)"
  shows "add_epsmat m e = (Some AssertionError, m, e)"
proof -
  have "(0, 0, gz) \<in> set (gvecs_want m)"
    using assms(1-3) by auto
  with assms(4) have "\<not> dists_all_zero (query (gvec_k e) (gvecs_want m))"
    using dists_all_zero_present by blast
  then show ?thesis by (simp add: add_epsmat_def)
qed

theorem add_epsmat_absent_witness:
  "gvecs_want (modeler_ex 1 1) = map (\<lambda>gz. (0, 0, gz)) [- Gz_max (modeler_ex 1 1) .. Gz_max (modeler_ex 1 1)]
   \<and> - Gz_max (modeler_ex 1 1) \<le> 1 \<and> 1 \<le> Gz_max (modeler_ex 1 1)
   \<and> (0, 0, 1) \<notin> set (gvec_k (epsmat_ex (Complex (1/2) 0)))
   \<and> add_epsmat (modeler_ex 1 1) (epsmat_ex (Complex (1/2) 0))
       = (Some AssertionError, modeler_ex 1 1, epsmat_ex (Complex (1/2) 0))"
proof -
  have h1: "gvecs_want (modeler_ex 1 1)
            = map (\<lambda>gz. (0, 0, gz)) [- Gz_max (modeler_ex 1 1) .. Gz_max (modeler_ex 1 1)]"
    by (simp add: modeler_ex_def)
  have h2: "- Gz_max (modeler_ex 1 1) \<le> 1" and h3: "1 \<le> Gz_max (modeler_ex 1 1)"
    by (simp_all add: modeler_ex_def)
  have h4: "(0, 0, 1) \<notin> set (gvec_k (epsmat_ex (Complex (1/2) 0)))"
    by (simp add: epsmat_ex_def)
  from add_epsmat_absent [OF h1 h2 h3 h4] h1 h2 h3 h4 show ?thesis by simp
qed

subsection \<open>The check of the imaginary part\<close>

text \<open>
  Claim C5, as stated, fails: the q-vector and the magnitude of a retained point are
  appended on lines 55 and 56, before the matrix is read and before the assertion of line
  61. With an imaginary part of \<open>10\<^sup>-\<^sup>1\<^sup>0\<close> at the selected entry of the second point, the
  assertion fails and the lists \<open>qs\<close> and \<open>qlens\<close> already hold that point.
\<close>

theorem add_epsmat_imag_counterexample:
  "fst (add_epsmat (modeler_ex 0 1) (epsmat_ex (Complex (1/2) (1 / 10 ^ 10))))
     = Some AssertionError
   \<and> qs (fst (snd (add_epsmat (modeler_ex 0 1) (epsmat_ex (Complex (1/2) (1 / 10 ^ 10))))))
       = [[1, 0, 0]]
   \<and> qlens (fst (snd (add_epsmat (modeler_ex 0 1) (epsmat_ex (Complex (1/2) (1 / 10 ^ 10))))))
       = [1]
   \<and> qs (modeler_ex 0 1) = [] \<and> qlens (modeler_ex 0 1) = []"
  by (simp add: add_epsmat_def modeler_ex_def epsmat_ex_def upto_ex0 query_def dist2_def
      dists_all_zero_def igs_of_def qpt_body_def np_get_def qlen_of_def dot3_def read_qpt_def
      np_take_def np_take_diag_def imag_tol_def upt_rec)

text \<open>
  Claim C5, amended. For a retained q-point whose matrix is read and whose selected
  diagonal entries are extracted, if one of these has an imaginary part whose absolute value
  is not below \<open>10\<^sup>-\<^sup>1\<^sup>5\<close>, the body raises \<open>AssertionError\<close> before it appends to \<open>eps\<close>:
  \<open>eps\<close> is unchanged, while \<open>qs\<close> and \<open>qlens\<close> have the q-vector and the magnitude of
  the point appended, and the reader has moved past the point.
\<close>

theorem qpt_body_imag_abort:
  assumes "np_get (qpt e) (int iq) = Inr qq"
    and "qlen_of (M m) qq = Inr l"
    and "\<not> l > avgcut_xy m"
    and "read_qpt False e = Inr (Some b, e1)"
    and "np_get (isort_i e1) (int iq) = Inr isort"
    and "np_take isort igs = Inr igs1"
    and "np_take_diag b (map (\<lambda>i. i - 1) igs1) = Inr ceps"
    and "\<exists>z \<in> set ceps. \<not> \<bar>Im z\<bar> < imag_tol"
  shows "\<exists>m'. qpt_body igs iq m e = (Some AssertionError, m', e1)
              \<and> eps m' = eps m \<and> qs m' = qs m @ [qq] \<and> qlens m' = qlens m @ [l]"
proof -
  from assms(8) have "\<not> list_all (\<lambda>z. \<bar>Im z\<bar> < imag_tol) ceps"
    by (auto simp: list_all_iff)
  with assms(1-7) show ?thesis
    by (simp add: qpt_body_def Let_def)
qed

theorem qpt_body_imag_abort_witness:
  "qlen_of (M (modeler_ex 0 1)) [1, 0, 0] = Inr 1
   \<and> \<not> 1 > avgcut_xy (modeler_ex 0 1)
   \<and> \<not> \<bar>Im (Complex (1/2) (1 / 10 ^ 10))\<bar> < imag_tol
   \<and> qpt_body [1] 1 (modeler_ex 0 1)
         ((epsmat_ex (Complex (1/2) (1 / 10 ^ 10)))
            \<lparr>unread := [[[Complex (1/2) (1 / 10 ^ 10), 0], [0, Complex 9 0]]]\<rparr>)
       = (Some AssertionError, (modeler_ex 0 1)\<lparr>qs := [[1, 0, 0]], qlens := [1]\<rparr>,
          (epsmat_ex (Complex (1/2) (1 / 10 ^ 10)))\<lparr>unread := []\<rparr>)
   \<and> eps ((modeler_ex 0 1)\<lparr>qs := [[1, 0, 0]], qlens := [1]\<rparr>) = eps (modeler_ex 0 1)"
proof -
  let ?z = "Complex (1/2) (1 / 10 ^ 10)"
  let ?e = "(epsmat_ex ?z)\<lparr>unread := [[[?z, 0], [0, Complex 9 0]]]\<rparr>"
  let ?e1 = "(epsmat_ex ?z)\<lparr>unread := []\<rparr>"
  have h1: "np_get (qpt ?e) (int 1) = Inr [1, 0, 0]"
    by (simp add: epsmat_ex_def np_get_def)
  have h2: "qlen_of (M (modeler_ex 0 1)) [1, 0, 0] = Inr 1"
    by (simp add: modeler_ex_def qlen_of_def dot3_def)
  have h3: "\<not> 1 > avgcut_xy (modeler_ex 0 1)"
    by (simp add: modeler_ex_def)
  have h4: "read_qpt False ?e = Inr (Some [[?z, 0], [0, Complex 9 0]], ?e1)"
    by (simp add: read_qpt_def epsmat_ex_def)
  have h5: "np_get (isort_i ?e1) (int 1) = Inr [2, 1]"
    by (simp add: epsmat_ex_def np_get_def)
  have h6: "np_take [2, 1 :: int] [1] = Inr [1]"
    by (simp add: np_take_def np_get_def)
  have h7: "np_take_diag [[?z, 0], [0, Complex 9 0]] (map (\<lambda>i. i - 1) [1]) = Inr [?z]"
    by (simp add: np_take_diag_def np_get_def)
  have h9: "\<not> \<bar>Im ?z\<bar> < imag_tol"
    by (simp add: imag_tol_def)
  then have h8: "\<exists>z \<in> set [?z]. \<not> \<bar>Im z\<bar> < imag_tol"
    by simp
  from qpt_body_imag_abort [OF h1 h2 h3 h4 h5 h6 h7 h8]
  obtain m' where b: "qpt_body [1] 1 (modeler_ex 0 1) ?e = (Some AssertionError, m', ?e1)"
    by blast
  have "qpt_body [1] 1 (modeler_ex 0 1) ?e
        = (Some AssertionError, (modeler_ex 0 1)\<lparr>qs := [[1, 0, 0]], qlens := [1]\<rparr>, ?e1)"
    using b h1 h2 h3 h4 h5 h6 h7 h9
    by (simp add: qpt_body_def Let_def modeler_ex_def)
  with h2 h3 h9 show ?thesis by simp
qed

section \<open>Properties of the commit\<close>

lemma collect_map_Inr: "collect (map (\<lambda>i. Inr (f i)) idx) = Inr (map f idx)"
  by (induction idx) auto

lemma np_take_in_range:
  "list_all (\<lambda>i. i < length xs) order \<Longrightarrow>
     np_take xs (map int order) = Inr (map (\<lambda>i. xs ! i) order)"
  unfolding np_take_def
  by (induction order) (auto simp: np_get_def)

lemma np_array_T_rect:
  assumes "rows \<noteq> []" and "list_all (\<lambda>r. length r = L) rows"
  shows "np_array_T rows = Some (map (\<lambda>j. map (\<lambda>row. row ! j) rows) [0 ..< L])"
  using assms by (cases rows) (auto simp: np_array_T_def list_all_iff)

lemma is_argsort_set:
  assumes "is_argsort xs order"
  shows "set order = {0 ..< length xs}" and "length order = length xs"
proof -
  from assms have m: "mset order = mset [0 ..< length xs]" by (simp add: is_argsort_def)
  from mset_eq_setD [OF m] show "set order = {0 ..< length xs}" by simp
  from mset_eq_length [OF m] show "length order = length xs" by simp
qed

lemma argsort_stable_ok: "is_argsort xs (argsort_stable xs)"
  by (simp add: is_argsort_def argsort_stable_def)

lemma column_take_cols:
  assumes "list_all (\<lambda>r. length r = L) rows" and "i < length rows"
  shows "map (\<lambda>row. row ! i) (map (\<lambda>j. map (\<lambda>row. row ! j) rows) [0 ..< L]) = rows ! i"
proof -
  from assms have "length (rows ! i) = L" by (simp add: list_all_length)
  then show ?thesis
    by (auto simp: list_eq_iff_nth_eq assms(2))
qed

text \<open>
  With no retained sample the first reordering, \<^verbatim>\<open>self.qs[:,order]\<close>, is applied to an
  empty one-dimensional array and raises.
\<close>

lemma commit_data_empty: "qs m = [] \<Longrightarrow> commit_data argsort m = Inl IndexError"
  by (simp add: commit_data_def np_array_T_def take_cols_def)

text \<open>
  Claim C2. For pending lists of the shape that \<open>add_epsmat\<close> builds, with at least one
  sample, and for any result of \<^verbatim>\<open>argsort\<close> that is a sorting permutation of the
  magnitudes, \<open>commit_data\<close> returns normally; afterwards \<open>qlens\<close> is non-decreasing,
  the three arrays are the transposed pending lists with their columns taken in the one
  order that \<^verbatim>\<open>argsort\<close> gave, the number of samples is the same, and the samples, as
  triples of q-vector, magnitude and vector of dielectric values, are the same multiset.
\<close>

theorem commit_data_sorted:
  assumes ok: "pending_ok m"
    and srt: "is_argsort (qlens m) (argsort (qlens m))"
  shows "\<exists>m'. commit_data argsort m = Inr m'
           \<and> sorted (qlens m')
           \<and> qlens m' = map (\<lambda>i. qlens m ! i) (argsort (qlens m))
           \<and> qs m' = map (\<lambda>row. map (\<lambda>i. row ! i) (argsort (qlens m)))
                        (map (\<lambda>k. map (\<lambda>q. q ! k) (qs m)) [0 ..< 3])
           \<and> eps m' = map (\<lambda>row. map (\<lambda>i. row ! i) (argsort (qlens m)))
                         (map (\<lambda>k. map (\<lambda>v. v ! k) (eps m)) [0 ..< length (gvecs_want m)])
           \<and> length (qlens m') = length (qlens m)
           \<and> mset (committed_samples m') = mset (pending_samples m)"
proof -
  let ?n = "length (qlens m)"
  let ?order = "argsort (qlens m)"
  let ?qsT = "map (\<lambda>k. map (\<lambda>q. q ! k) (qs m)) [0 ..< 3]"
  let ?epsT = "map (\<lambda>k. map (\<lambda>v. v ! k) (eps m)) [0 ..< length (gvecs_want m)]"
  let ?m' = "m\<lparr>qs := map (\<lambda>row. map (\<lambda>i. row ! i) ?order) ?qsT,
               qlens := map (\<lambda>i. qlens m ! i) ?order,
               eps := map (\<lambda>row. map (\<lambda>i. row ! i) ?order) ?epsT\<rparr>"
  from ok have ne: "qlens m \<noteq> []" and lq: "length (qs m) = ?n" and le: "length (eps m) = ?n"
    and q3: "list_all (\<lambda>q. length q = 3) (qs m)"
    and eg: "list_all (\<lambda>v. length v = length (gvecs_want m)) (eps m)"
    by (simp_all add: pending_ok_def aligned_def)
  from is_argsort_set [OF srt] have so: "set ?order = {0 ..< ?n}" and lo: "length ?order = ?n"
    by simp_all
  from so have rng: "list_all (\<lambda>i. i < ?n) ?order" by (auto simp: list_all_iff)
  from ne lq have qne: "qs m \<noteq> []" by auto
  from ne le have ene: "eps m \<noteq> []" by auto
  have c1: "take_cols (np_array_T (qs m)) (length (qs m)) ?order
            = Inr (map (\<lambda>row. map (\<lambda>i. row ! i) ?order) ?qsT)"
    using np_array_T_rect [OF qne q3] rng lq by (simp add: take_cols_def)
  have c2: "np_take (qlens m) (map int ?order) = Inr (map (\<lambda>i. qlens m ! i) ?order)"
    using rng by (rule np_take_in_range)
  have c3: "take_cols (np_array_T (eps m)) (length (eps m)) ?order
            = Inr (map (\<lambda>row. map (\<lambda>i. row ! i) ?order) ?epsT)"
    using np_array_T_rect [OF ene eg] rng le by (simp add: take_cols_def)
  have cd: "commit_data argsort m = Inr ?m'"
    by (simp add: commit_data_def Let_def c1 c2 c3)
  have s: "sorted (qlens ?m')"
    using srt by (simp add: is_argsort_def)
  have col: "committed_samples ?m' = map (\<lambda>i. (qs m ! i, qlens m ! i, eps m ! i)) ?order"
  proof (rule nth_equalityI)
    show "length (committed_samples ?m')
          = length (map (\<lambda>i. (qs m ! i, qlens m ! i, eps m ! i)) ?order)"
      by (simp add: committed_samples_def)
  next
    fix j assume "j < length (committed_samples ?m')"
    then have j: "j < length ?order" by (simp add: committed_samples_def)
    then have oj: "?order ! j < ?n" using so nth_mem by fastforce
    have a: "column (qs ?m') j = qs m ! (?order ! j)"
      using column_take_cols [OF q3, of "?order ! j"] oj lq j
      by (simp add: column_def comp_def)
    have b: "column (eps ?m') j = eps m ! (?order ! j)"
      using column_take_cols [OF eg, of "?order ! j"] oj le j
      by (simp add: column_def comp_def)
    show "committed_samples ?m' ! j
          = map (\<lambda>i. (qs m ! i, qlens m ! i, eps m ! i)) ?order ! j"
      using j a b by (simp add: committed_samples_def)
  qed
  have pend: "pending_samples m = map (\<lambda>i. (qs m ! i, qlens m ! i, eps m ! i)) [0 ..< ?n]"
    by (rule nth_equalityI) (simp_all add: pending_samples_def lq le)
  have "mset (committed_samples ?m') = image_mset (\<lambda>i. (qs m ! i, qlens m ! i, eps m ! i)) (mset ?order)"
    by (simp only: col mset_map)
  also have "\<dots> = image_mset (\<lambda>i. (qs m ! i, qlens m ! i, eps m ! i)) (mset [0 ..< ?n])"
    using srt by (simp add: is_argsort_def)
  also have "\<dots> = mset (pending_samples m)"
    by (simp add: pend)
  finally have ms: "mset (committed_samples ?m') = mset (pending_samples m)" .
  show ?thesis
    using cd s ms lo by (intro exI [of _ ?m']) simp
qed

theorem commit_data_sorted_witness:
  "pending_ok pending_ex
   \<and> is_argsort (qlens pending_ex) (argsort_stable (qlens pending_ex))
   \<and> commit_data argsort_stable pending_ex = Inr committed_ex
   \<and> sorted (qlens committed_ex)
   \<and> qlens committed_ex = [1, 2, 2]
   \<and> length (qlens committed_ex) = length (qlens pending_ex)
   \<and> mset (committed_samples committed_ex) = mset (pending_samples pending_ex)"
proof -
  have h1: "pending_ok pending_ex"
    by (simp add: pending_ok_def aligned_def pending_ex_def modeler_ex_def)
  have h2: "is_argsort (qlens pending_ex) (argsort_stable (qlens pending_ex))"
    by (rule argsort_stable_ok)
  have ev: "commit_data argsort_stable pending_ex = Inr committed_ex"
    by (simp add: commit_data_def pending_ex_def committed_ex_def modeler_ex_def
        argsort_stable_def np_array_T_def take_cols_def np_take_def np_get_def upt_rec upto_ex)
  have q: "qlens committed_ex = [1, 2, 2]"
    by (simp add: committed_ex_def)
  from commit_data_sorted [of pending_ex argsort_stable, OF h1 h2] ev h1 h2 q
  show ?thesis by auto
qed

section \<open>Properties of the Coulomb kernel\<close>

lemma cos_term_powi: "(of_int (1 - 2 * (Gz mod 2)) :: real) = (- 1) powi Gz"
proof (cases "even Gz")
  case True
  then have "Gz mod 2 = 0" by presburger
  with True show ?thesis by simp
next
  case False
  then have "Gz mod 2 = 1" by presburger
  with False show ?thesis by simp
qed

lemma cholesky_entry22:
  assumes "cholesky A = Inr L"
  shows "0 < entry22 A"
proof -
  obtain a00 a01 a02 a10 a11 a12 a20 a21 a22
    where A: "A = ((a00, a01, a02), (a10, a11, a12), (a20, a21, a22))"
    by (metis prod_cases3)
  from assms have "0 < a22 - (a20 / sqrt a00) * (a20 / sqrt a00)
      - ((a21 - a20 / sqrt a00 * (a10 / sqrt a00)) / sqrt (a11 - a10 / sqrt a00 * (a10 / sqrt a00)))
        * ((a21 - a20 / sqrt a00 * (a10 / sqrt a00)) / sqrt (a11 - a10 / sqrt a00 * (a10 / sqrt a00)))"
    unfolding A cholesky_def by (simp add: Let_def split: if_splits)
  moreover have "0 \<le> (a20 / sqrt a00) * (a20 / sqrt a00)" by simp
  moreover have "0 \<le> ((a21 - a20 / sqrt a00 * (a10 / sqrt a00)) / sqrt (a11 - a10 / sqrt a00 * (a10 / sqrt a00)))
        * ((a21 - a20 / sqrt a00 * (a10 / sqrt a00)) / sqrt (a11 - a10 / sqrt a00 * (a10 / sqrt a00)))"
    by simp
  ultimately have "0 < a22" by linarith
  then show ?thesis by (simp add: A entry22_def)
qed

lemma init_fields:
  assumes "init w gz_max avgcut = Inr m"
  shows "m_bdot m = bdot w" and "Lz m = alat w * entry22 (avec w)" and "0 < entry22 (bdot w)"
    and "Gzs m = [- gz_max .. gz_max]" and "avgcut_xy m = avgcut"
    and "gvecs_want m = map (\<lambda>gz. (0, 0, gz)) [- gz_max .. gz_max]"
    and "qs m = []" and "qlens m = []" and "eps m = []"
  using assms cholesky_entry22 [of "bdot w"]
  by (auto simp: init_def split: sum.splits)

lemma denom_pos:
  assumes "0 < qlen" and "0 \<le> b"
  shows "0 < qlen\<^sup>2 + (of_int Gz)\<^sup>2 * (b::real)"
proof -
  have "0 < qlen\<^sup>2" using assms(1) by simp
  moreover have "0 \<le> (of_int Gz)\<^sup>2 * b" using assms(2) by simp
  ultimately show ?thesis by linarith
qed

text \<open>
  Claim C6. For a modeler built by \<^verbatim>\<open>__init__\<close> from the geometry \<open>w\<close>, a scalar
  magnitude \<open>qlen > 0\<close> and an integer \<open>Gz\<close>: without truncation the kernel is
  \<open>8\<pi> / (qlen\<^sup>2 + Gz\<^sup>2 bdot\<^sub>z\<^sub>z)\<close>, and with truncation it is that value times
  \<open>1 - exp (- qlen zc) (-1)\<^sup>G\<^sup>z\<close>, where \<open>zc\<close> is half of \<open>alat * avec[2,2]\<close>. The
  denominator is positive, because a geometry that \<^verbatim>\<open>__init__\<close> accepts has a positive
  \<open>bdot\<^sub>z\<^sub>z\<close>; so the division is one that real arithmetic describes.
\<close>

theorem get_vcoul_formula:
  assumes "init w gz_max avgcut = Inr m" and "0 < qlen"
  shows "get_vcoul m (QScalar qlen) (GzScalar Gz) False
           = VScalar (8 * pi / (qlen\<^sup>2 + (of_int Gz)\<^sup>2 * entry22 (bdot w)))
       \<and> get_vcoul m (QScalar qlen) (GzScalar Gz) True
           = VScalar (8 * pi / (qlen\<^sup>2 + (of_int Gz)\<^sup>2 * entry22 (bdot w))
                      * (1 - exp (- qlen * (alat w * entry22 (avec w) / 2)) * (- 1) powi Gz))
       \<and> 0 < qlen\<^sup>2 + (of_int Gz)\<^sup>2 * entry22 (bdot w)"
proof -
  note f = init_fields(1-3) [OF assms(1)]
  from denom_pos [OF assms(2)] f(3)
  have "0 < qlen\<^sup>2 + (of_int Gz)\<^sup>2 * entry22 (bdot w)" by simp
  then show ?thesis
    by (simp add: get_vcoul_def vcoul_def Let_def f cos_term_powi del: of_int_diff of_int_mult)
qed

theorem get_vcoul_formula_witness:
  "init wfn_ex 0 1 = Inr (modeler_ex 0 1) \<and> (0::real) < 2
   \<and> get_vcoul (modeler_ex 0 1) (QScalar 2) (GzScalar 1) False = VScalar (8 * pi / 5)
   \<and> get_vcoul (modeler_ex 0 1) (QScalar 2) (GzScalar 1) True
       = VScalar (8 * pi / 5 * (1 + exp (- 6)))"
proof -
  have h1: "init wfn_ex 0 1 = Inr (modeler_ex 0 1)" by (rule init_ex)
  have h2: "(0::real) < 2" by simp
  from get_vcoul_formula [OF h1 h2, of 1] h1 show ?thesis
    by (simp add: wfn_ex_def entry22_def)
qed

text \<open>
  Claim C7. When \<^verbatim>\<open>Gz\<close> is an array, line 81 replaces the supplied \<^verbatim>\<open>qlen\<close> by
  \<^verbatim>\<open>self.qlens\<close>, so the result does not depend on the supplied magnitudes. On the
  committed example, whose stored magnitudes are 1, 2 and 2, the call with the magnitudes
  \<open>[3]\<close> and the lattice indices \<open>[0]\<close> returns the row of the kernel at the stored
  magnitudes, and not the kernel at the supplied magnitude 3, which is \<open>8\<pi> / 9\<close>.
\<close>

theorem get_vcoul_array_uses_stored_qlens:
  "get_vcoul committed_ex (QArray [3]) (GzArray [0]) False = VMatrix [[8 * pi, 2 * pi, 2 * pi]]
   \<and> get_vcoul committed_ex (QArray [3]) (GzScalar 0) False = VArray [8 * pi / 9]
   \<and> get_vcoul committed_ex (QArray [3]) (GzArray [0]) False
       = get_vcoul committed_ex (QArray [1, 2, 2]) (GzArray [0]) False"
  by (simp add: get_vcoul_def vcoul_def committed_ex_def modeler_ex_def entry22_def)

section \<open>Properties of the fit\<close>

lemma fit_loop_only_tcks:
  "\<exists>t. snd (fit_loop splrep kind smooth deg ys pairs st) = (fst st)\<lparr>tcks := t\<rparr>"
proof (induction pairs arbitrary: st)
  case Nil
  have "snd (fit_loop splrep kind smooth deg ys [] st) = (fst st)\<lparr>tcks := tcks (fst st)\<rparr>"
    by simp
  then show ?case by (rule exI)
next
  case (Cons p pairs)
  obtain ig Gz where p: "p = (ig, Gz)" by (cases p)
  have stay: "\<exists>t. fst st = (fst st)\<lparr>tcks := t\<rparr>"
    by (rule exI [of _ "tcks (fst st)"]) simp
  show ?case
  proof (cases "np_get (deref ys st) (int ig)")
    case (Inl err)
    with p have "snd (fit_loop splrep kind smooth deg ys (p # pairs) st) = fst st"
      by simp
    with stay show ?thesis by simp
  next
    case (Inr y0)
    obtain x y where xy: "fit_xy kind (qlens (fst st)) y0 Gz = (x, y)"
      by (cases "fit_xy kind (qlens (fst st)) y0 Gz")
    show ?thesis
    proof (cases "splrep x y deg (smoothing smooth x Gz)")
      case (Inl err)
      with Inr xy p have "snd (fit_loop splrep kind smooth deg ys (p # pairs) st) = fst st"
        by simp
      with stay show ?thesis by simp
    next
      case sp: (Inr t)
      show ?thesis
      proof (cases "tcks (fst st)")
        case None
        with Inr xy p sp have "snd (fit_loop splrep kind smooth deg ys (p # pairs) st) = fst st"
          by simp
        with stay show ?thesis by simp
      next
        case (Some ts)
        define st' where "st' = ((fst st)\<lparr>tcks := Some (ts @ [t])\<rparr>, snd st)"
        from Inr xy p sp Some
        have e: "fit_loop splrep kind smooth deg ys (p # pairs) st
              = fit_loop splrep kind smooth deg ys pairs st'"
          by (simp add: st'_def)
        from Cons.IH [of st'] obtain t' where
          "snd (fit_loop splrep kind smooth deg ys pairs st') = (fst st')\<lparr>tcks := t'\<rparr>" by blast
        with e have "snd (fit_loop splrep kind smooth deg ys (p # pairs) st)
                         = (fst st)\<lparr>tcks := t'\<rparr>" by (simp add: st'_def)
        then show ?thesis by (rule exI)
      qed
    qed
  qed
qed

lemma model_only_fit_attrs:
  "\<exists>d t. snd (model splrep m kind smooth deg) = m\<lparr>degree := d, tcks := t\<rparr>"
proof -
  let ?m1 = "m\<lparr>degree := Some deg\<rparr>"
  let ?pairs = "zip [0 ..< nG m] (Gzs m)"
  have base: "?m1 = m\<lparr>degree := Some deg, tcks := tcks m\<rparr>" by simp
  have loop: "\<exists>t. snd (fit_loop splrep kind smooth deg ys ?pairs (?m1\<lparr>tcks := Some []\<rparr>, a))
                   = m\<lparr>degree := Some deg, tcks := t\<rparr>" for ys a
    using fit_loop_only_tcks [of splrep kind smooth deg ys ?pairs "(?m1\<lparr>tcks := Some []\<rparr>, a)"]
    by simp
  show ?thesis
  proof (cases "kind = 0")
    case True
    then have "snd (model splrep m kind smooth deg)
               = snd (fit_loop splrep kind smooth deg Ref_eps ?pairs (?m1\<lparr>tcks := Some []\<rparr>, []))"
      by (simp add: model_def Let_def)
    with loop [of Ref_eps "[]"] show ?thesis by auto
  next
    case False
    show ?thesis
    proof (cases "chi_of ?m1")
      case (Inl err)
      with False have "snd (model splrep m kind smooth deg) = ?m1"
        by (simp add: model_def Let_def)
      then have "snd (model splrep m kind smooth deg) = m\<lparr>degree := Some deg, tcks := tcks m\<rparr>"
        by simp
      then show ?thesis by blast
    next
      case (Inr chi)
      show ?thesis
      proof (cases "kind = 1")
        case True
        with Inr have "snd (model splrep m kind smooth deg)
               = snd (fit_loop splrep kind smooth deg Ref_chi ?pairs (?m1\<lparr>tcks := Some []\<rparr>, chi))"
          by (simp add: model_def Let_def)
        with loop [of Ref_chi chi] show ?thesis by auto
      next
        case k: False
        let ?chi2 = "div_even_rows (Gzs m) (qlens m) chi"
        have i: "idiv_even_rows Ref_chi (?m1, chi) = (?m1, ?chi2)"
          by (simp add: idiv_even_rows_def assign_def deref_def)
        from False k Inr have "snd (model splrep m kind smooth deg)
               = snd (fit_loop splrep kind smooth deg Ref_chi ?pairs (?m1\<lparr>tcks := Some []\<rparr>, ?chi2))"
          by (simp add: model_def Let_def i)
        with loop [of Ref_chi ?chi2] show ?thesis by auto
      qed
    qed
  qed
qed




lemma vcoul_degree [simp]: "vcoul (m\<lparr>degree := d\<rparr>) = vcoul m"
  by (simp add: vcoul_def fun_eq_iff)



text \<open>
  Claim C10. Whatever the kind of model and whatever the outcome, \<open>model\<close> leaves
  \<open>qs\<close>, \<open>qlens\<close>, \<open>eps\<close>, \<open>Gzs\<close>, \<open>avgcut_xy\<close>, \<open>bdot\<close>, \<open>Lz\<close> and \<open>M\<close> as they
  were: the only in-place operation, the division of kind 2, goes through the name
  \<^verbatim>\<open>ys\<close>, which is bound to the new array \<^verbatim>\<open>chi\<close> and not to the array of
  \<^verbatim>\<open>self.eps\<close>.
\<close>

theorem model_frame:
  "qs (snd (model splrep m kind smooth deg)) = qs m
   \<and> qlens (snd (model splrep m kind smooth deg)) = qlens m
   \<and> eps (snd (model splrep m kind smooth deg)) = eps m
   \<and> Gzs (snd (model splrep m kind smooth deg)) = Gzs m
   \<and> avgcut_xy (snd (model splrep m kind smooth deg)) = avgcut_xy m
   \<and> m_bdot (snd (model splrep m kind smooth deg)) = m_bdot m
   \<and> Lz (snd (model splrep m kind smooth deg)) = Lz m
   \<and> M (snd (model splrep m kind smooth deg)) = M m"
proof -
  from model_only_fit_attrs [of splrep m kind smooth deg]
  obtain d t where "snd (model splrep m kind smooth deg) = m\<lparr>degree := d, tcks := t\<rparr>"
    by blast
  then show ?thesis by simp
qed

end
